theory Spec2Isabelle
  imports Main
begin

section \<open>Data model of the HTTP request-processing engine\<close>

text \<open>
  The development embeds \<^verbatim>\<open>src/oatpp/web/server/HttpProcessor.cpp\<close>: the blocking
  strategy (\<^verbatim>\<open>HttpProcessor::Task::run\<close> with \<^verbatim>\<open>HttpProcessor::processRequest\<close>) and
  the cooperative strategy (\<^verbatim>\<open>HttpProcessor::Coroutine\<close>). The collaborators the file
  only calls (header reader, router, error handler, interceptors, endpoints, the
  connection-state resolver) are inputs of the model. Their types are declared in
  headers outside that file; the records below hold the members the file reads and
  writes, as its expressions and the specification's data model name them.
\<close>

text \<open>\<^verbatim>\<open>protocol::http::Status\<close>: a numeric code and its description.\<close>

record status =
  code :: int
  description :: string

text \<open>
  A header collection. A key stands for its case-insensitive class, written in one
  canonical spelling; the order of the list is the order of insertion.
\<close>

type_synonym headers = "(string \<times> string) list"

record starting_line =
  line_method :: string
  line_path :: string
  line_protocol :: string

text \<open>\<^verbatim>\<open>RequestHeadersReader::Result\<close>: what the header reader parsed.\<close>

record headers_read_result =
  startingLine :: starting_line
  result_headers :: headers

text \<open>
  \<^verbatim>\<open>HttpError::Info\<close>, the out-parameter of \<^verbatim>\<open>readHeaders\<close>: a status (code 0 when no
  parse error was found) and the I/O status of the last read.
\<close>

record error_info =
  info_status :: status
  ioStatus :: int

text \<open>One call of \<^verbatim>\<open>headersReader.readHeaders(inStream, error)\<close>: the result and the filled-in error.\<close>

record read_outcome =
  read_result :: headers_read_result
  read_error :: error_info

text \<open>
  \<^verbatim>\<open>incoming::Request\<close>, built by \<^verbatim>\<open>Request::createShared\<close> from the starting line, the
  route's match map and the headers. The body stream and its decoder are opaque here.
\<close>

record request =
  request_startingLine :: starting_line
  pathVariables :: "(string \<times> string) list"
  request_headers :: headers

text \<open>
  \<^verbatim>\<open>outgoing::Response\<close>: status, headers, body, and the optional connection-upgrade
  handler (named by a label) with its parameters.
\<close>

record response =
  response_status :: status
  response_headers :: headers
  body :: string
  connectionUpgradeHandler :: "string option"
  connectionUpgradeParameters :: "(string \<times> string) list"

datatype connection_state =
  CONNECTION_STATE_CLOSE | CONNECTION_STATE_KEEP_ALIVE | CONNECTION_STATE_UPGRADE

text \<open>
  What a \<^verbatim>\<open>try\<close> block of \<^verbatim>\<open>processRequest\<close> can catch: an \<^verbatim>\<open>HttpError\<close> (status,
  message, headers), any other \<^verbatim>\<open>std::exception\<close> (its \<^verbatim>\<open>what()\<close>), or anything else.
\<close>

datatype exn =
  HttpError status string headers
  | StdException string
  | UnknownException

text \<open>
  A request interceptor returns a response, or an empty pointer to let the request
  pass, or throws. An endpoint returns a response or throws; the source dereferences
  the endpoint's response without a test, so an endpoint is typed as never returning
  an empty pointer.
\<close>

type_synonym interceptor = "request \<Rightarrow> exn + response option"

record route =
  handle :: "request \<Rightarrow> exn + response"
  matchMap :: "(string \<times> string) list"

text \<open>
  The collaborators handed to the engine: \<^verbatim>\<open>HttpRouter::getRoute\<close>,
  \<^verbatim>\<open>ErrorHandler::handleError\<close> (the two-argument overload is the call without
  headers), the interceptor chain in insertion order, and
  \<^verbatim>\<open>CommunicationUtils::considerConnectionState\<close> (its request may be an empty pointer).
\<close>

record env =
  getRoute :: "string \<Rightarrow> string \<Rightarrow> route option"
  errorHandler :: "status \<Rightarrow> string \<Rightarrow> headers option \<Rightarrow> response"
  requestInterceptors :: "interceptor list"
  considerConnectionState :: "request option \<Rightarrow> response \<Rightarrow> connection_state"

text \<open>
  The observable calls the engine makes, in the order it makes them: the log by which
  ``is invoked'', ``is never consulted'' and ``is sent'' are stated.
\<close>

datatype effect =
  InitContexts
  | GetRoute string string
  | Intercept nat request
  | Handle request
  | HandleAsync request
  | HandleError status string "headers option"
  | Send response
  | SendAsync response
  | HandleConnection string "(string \<times> string) list"
  | LogE string
  | LogW string
  | LogD string

section \<open>Constants and helpers of the protocol layer\<close>

text \<open>
  Modelled from the spec: \<^verbatim>\<open>Status::CODE_404\<close> and \<^verbatim>\<open>Status::CODE_500\<close> are declared
  outside the file embedded here. The spec: a ``not found'' status for a request without
  a route (``404-class''), and ``status 500'' for a failure without a status of its own.
\<close>

definition CODE_404 :: status where
  "CODE_404 = \<lparr>code = 404, description = ''Not Found''\<rparr>"

definition CODE_500 :: status where
  "CODE_500 = \<lparr>code = 500, description = ''Internal Server Error''\<rparr>"

text \<open>
  Modelled from the spec: \<^verbatim>\<open>Header::SERVER\<close> and \<^verbatim>\<open>Header::Value::SERVER\<close> are declared
  outside the file embedded here. The spec: ``the Server identification header'' with ``a
  fixed server-identification header value''. The value names the framework; nothing
  below depends on its spelling.
\<close>

definition Header_SERVER :: string where
  "Header_SERVER = ''Server''"

definition Header_Value_SERVER :: string where
  "Header_Value_SERVER = ''oatpp''"

text \<open>
  Modelled from the spec: \<^verbatim>\<open>Response::putHeaderIfNotExists\<close> is not part of the file
  embedded here. The spec: ``Inject the Server identification header into the response if
  not already present (handler-set values win).''
\<close>

definition putHeaderIfNotExists :: "string \<Rightarrow> string \<Rightarrow> response \<Rightarrow> response" where
  "putHeaderIfNotExists k v r =
     (case map_of (response_headers r) k of
        None \<Rightarrow> r\<lparr>response_headers := response_headers r @ [(k, v)]\<rparr>
      | Some old \<Rightarrow> r)"

text \<open>
  Modelled from the spec: \<^verbatim>\<open>Request::createShared\<close> is declared outside the file embedded
  here. The spec: ``Build the Request from parsed start-line, matched path parameters,
  headers, and a body view bound to the connection.''
\<close>

definition createShared :: "starting_line \<Rightarrow> (string \<times> string) list \<Rightarrow> headers \<Rightarrow> request" where
  "createShared sl mm hs =
     \<lparr>request_startingLine = sl, pathVariables = mm, request_headers = hs\<rparr>"

section \<open>The blocking strategy\<close>

text \<open>
  The interceptor walk of \<^verbatim>\<open>processRequest\<close> (the \<^verbatim>\<open>while\<close> over the chain's nodes): the
  first non-empty response ends it, an exception leaves it. The index counts the
  interceptors already passed.
\<close>

fun interceptLoop :: "interceptor list \<Rightarrow> nat \<Rightarrow> request \<Rightarrow> (exn + response option) \<times> effect list" where
  "interceptLoop [] i req = (Inr None, [])"
| "interceptLoop (f # fs) i req =
     (case f req of
        Inl e \<Rightarrow> (Inl e, [Intercept i req])
      | Inr (Some r) \<Rightarrow> (Inr (Some r), [Intercept i req])
      | Inr None \<Rightarrow>
          (case interceptLoop fs (Suc i) req of
             (res, effs) \<Rightarrow> (res, Intercept i req # effs)))"

text \<open>The body of the \<^verbatim>\<open>try\<close> block: the walk, then the endpoint if no interceptor answered.\<close>

definition tryBlock :: "env \<Rightarrow> route \<Rightarrow> request \<Rightarrow> (exn + response) \<times> effect list" where
  "tryBlock e rt req =
     (case interceptLoop (requestInterceptors e) 0 req of
        (Inl x, effs) \<Rightarrow> (Inl x, effs)
      | (Inr (Some r), effs) \<Rightarrow> (Inr r, effs)
      | (Inr None, effs) \<Rightarrow>
          (case handle rt req of
             Inl x \<Rightarrow> (Inl x, effs @ [Handle req])
           | Inr r \<Rightarrow> (Inr r, effs @ [Handle req])))"

text \<open>
  The three \<^verbatim>\<open>catch\<close> clauses of \<^verbatim>\<open>processRequest\<close>, in the order of the source: the
  response each returns and the error-handler call it makes.
\<close>

fun catchClauses :: "env \<Rightarrow> exn \<Rightarrow> response \<times> effect" where
  "catchClauses e (HttpError st msg hs) =
     (errorHandler e st msg (Some hs), HandleError st msg (Some hs))"
| "catchClauses e (StdException w) =
     (errorHandler e CODE_500 w None, HandleError CODE_500 w None)"
| "catchClauses e UnknownException =
     (errorHandler e CODE_500 ''Unknown error'' None, HandleError CODE_500 ''Unknown error'' None)"

text \<open>
  \<^verbatim>\<open>HttpProcessor::processRequest\<close>. The in-out parameter \<^verbatim>\<open>connectionState\<close> is an
  argument and the second component of the result; the first component is the returned
  response (\<open>None\<close> for \<^verbatim>\<open>nullptr\<close>), the third the calls made.
\<close>

definition processRequest ::
  "env \<Rightarrow> read_outcome \<Rightarrow> connection_state \<Rightarrow> response option \<times> connection_state \<times> effect list" where
  "processRequest e rd connectionState =
     (let error = read_error rd; headersReadResult = read_result rd in
      if code (info_status error) \<noteq> 0 then
        (Some (errorHandler e (info_status error) ''Invalid request headers'' None),
         CONNECTION_STATE_CLOSE,
         [HandleError (info_status error) ''Invalid request headers'' None])
      else if ioStatus error \<le> 0 then
        (None, CONNECTION_STATE_CLOSE, [])
      else
        (let m = line_method (startingLine headersReadResult);
             p = line_path (startingLine headersReadResult) in
         case getRoute e m p of
           None \<Rightarrow>
             (Some (errorHandler e CODE_404 ''Current url has no mapping'' None),
              CONNECTION_STATE_CLOSE,
              [GetRoute m p, HandleError CODE_404 ''Current url has no mapping'' None])
         | Some rt \<Rightarrow>
             (let req = createShared (startingLine headersReadResult) (matchMap rt)
                          (result_headers headersReadResult) in
              case tryBlock e rt req of
                (Inl x, effs) \<Rightarrow>
                  (case catchClauses e x of
                     (r, call) \<Rightarrow> (Some r, connectionState, GetRoute m p # effs @ [call]))
              | (Inr r, effs) \<Rightarrow>
                  (let r' = putHeaderIfNotExists Header_SERVER Header_Value_SERVER r in
                   (Some r', considerConnectionState e (Some req) r', GetRoute m p # effs)))))"

text \<open>
  The \<^verbatim>\<open>do ... while\<close> loop of \<^verbatim>\<open>Task::run\<close> and the upgrade hand-off after it. The header
  reader is scripted: the list holds the outcomes of its successive calls, one per
  iteration. The loop may go on for as long as requests arrive, so the result is \<open>None\<close>
  when the script ends while the loop still wants to read; otherwise it is the log of
  the calls made until \<^verbatim>\<open>run\<close> returns.
\<close>

definition afterLoop :: "connection_state \<Rightarrow> response \<Rightarrow> effect list" where
  "afterLoop connectionState r =
     (if connectionState = CONNECTION_STATE_UPGRADE then
        (case connectionUpgradeHandler r of
           Some h \<Rightarrow> [HandleConnection h (connectionUpgradeParameters r)]
         | None \<Rightarrow> [LogW ''Warning. ConnectionUpgradeHandler not set!''])
      else [])"

fun Task_loop :: "env \<Rightarrow> read_outcome list \<Rightarrow> connection_state \<Rightarrow> effect list option" where
  "Task_loop e [] connectionState = None"
| "Task_loop e (rd # rds) connectionState =
     (case processRequest e rd connectionState of
        (None, cs, effs) \<Rightarrow> Some effs
      | (Some r, cs, effs) \<Rightarrow>
          (if cs = CONNECTION_STATE_KEEP_ALIVE then
             (case Task_loop e rds cs of
                None \<Rightarrow> None
              | Some rest \<Rightarrow> Some (effs @ Send r # rest))
           else Some (effs @ Send r # afterLoop cs r)))"

definition Task_run :: "env \<Rightarrow> read_outcome list \<Rightarrow> effect list option" where
  "Task_run e rds =
     (case Task_loop e rds CONNECTION_STATE_CLOSE of
        None \<Rightarrow> None
      | Some effs \<Rightarrow> Some (InitContexts # effs))"

section \<open>The cooperative strategy\<close>

text \<open>
  A failure handed to \<^verbatim>\<open>Coroutine::handleError\<close>: an \<^verbatim>\<open>AsyncIOError\<close> with its code, or
  any other \<^verbatim>\<open>Error\<close>; both carry a message (\<^verbatim>\<open>what()\<close>). The source compares the code
  with \<^verbatim>\<open>IOError::BROKEN_PIPE\<close> only.
\<close>

datatype io_error = BROKEN_PIPE | OTHER_IO_ERROR

datatype async_error =
  AsyncIOError io_error string
  | Error string

fun what :: "async_error \<Rightarrow> string" where
  "what (AsyncIOError c w) = w"
| "what (Error w) = w"

text \<open>The test \<^verbatim>\<open>error->is<AsyncIOError>()\<close> with \<^verbatim>\<open>getCode() == BROKEN_PIPE\<close>.\<close>

fun isBrokenPipe :: "async_error \<Rightarrow> bool" where
  "isBrokenPipe (AsyncIOError BROKEN_PIPE w) = True"
| "isBrokenPipe (AsyncIOError OTHER_IO_ERROR w) = False"
| "isBrokenPipe (Error w) = False"

text \<open>
  The members of the coroutine that the file reads and writes, and the log of calls.
\<close>

record coroutine =
  m_currentRoute :: "route option"
  m_currentRequest :: "request option"
  m_currentResponse :: "response option"
  m_connectionState :: connection_state
  effects :: "effect list"

text \<open>
  The \<^verbatim>\<open>Action\<close> a step hands back to the scheduler. \<^verbatim>\<open>yieldTo(&f)\<close> is the call of
  \<open>f\<close> on the current state (no suspension lies between), so the actions left are the
  suspensions and the terminal ones: waiting for the stream contexts, for the header
  reader, for the endpoint started with the request, for the response being sent;
  \<^verbatim>\<open>finish()\<close>; a returned error; an exception leaving the step; and the dereference of
  an empty pointer.
\<close>

datatype action =
  WaitInitContexts
  | WaitReadHeaders
  | WaitHandleAsync request
  | WaitSend response
  | Finish
  | ErrorAction "async_error option"
  | Thrown exn
  | NullDereference

definition act :: "coroutine \<Rightarrow> coroutine \<times> action" where
  "act c = (c\<lparr>effects := effects c @ [InitContexts]\<rparr>, WaitInitContexts)"

definition parseHeaders :: "coroutine \<Rightarrow> coroutine \<times> action" where
  "parseHeaders c = (c, WaitReadHeaders)"

definition onResponseFormed :: "env \<Rightarrow> coroutine \<Rightarrow> coroutine \<times> action" where
  "onResponseFormed e c =
     (case m_currentResponse c of
        None \<Rightarrow> (c, NullDereference)
      | Some r \<Rightarrow>
          (let r' = putHeaderIfNotExists Header_SERVER Header_Value_SERVER r in
           (c\<lparr>m_currentResponse := Some r',
               m_connectionState := considerConnectionState e (m_currentRequest c) r',
               effects := effects c @ [SendAsync r']\<rparr>,
            WaitSend r')))"

definition onRequestFormed :: "coroutine \<Rightarrow> coroutine \<times> action" where
  "onRequestFormed c =
     (case m_currentRoute c of
        None \<Rightarrow> (c, NullDereference)
      | Some rt \<Rightarrow>
          (case m_currentRequest c of
             None \<Rightarrow> (c, NullDereference)
           | Some req \<Rightarrow> (c\<lparr>effects := effects c @ [HandleAsync req]\<rparr>, WaitHandleAsync req)))"

definition onResponse :: "env \<Rightarrow> response \<Rightarrow> coroutine \<Rightarrow> coroutine \<times> action" where
  "onResponse e r c = onResponseFormed e (c\<lparr>m_currentResponse := Some r\<rparr>)"

text \<open>
  The interceptor walk of \<^verbatim>\<open>onHeadersParsed\<close>. Each interceptor's answer is assigned to
  \<^verbatim>\<open>m_currentResponse\<close>, also the empty one; \<open>Inl\<close> is an exception leaving the step,
  \<open>Inr True\<close> an answer found, \<open>Inr False\<close> the end of the chain.
\<close>

fun interceptWalk :: "interceptor list \<Rightarrow> nat \<Rightarrow> request \<Rightarrow> coroutine \<Rightarrow> coroutine \<times> (exn + bool)" where
  "interceptWalk [] i req c = (c, Inr False)"
| "interceptWalk (f # fs) i req c =
     (case f req of
        Inl x \<Rightarrow> (c\<lparr>effects := effects c @ [Intercept i req]\<rparr>, Inl x)
      | Inr (Some r) \<Rightarrow>
          (c\<lparr>m_currentResponse := Some r, effects := effects c @ [Intercept i req]\<rparr>, Inr True)
      | Inr None \<Rightarrow>
          interceptWalk fs (Suc i) req
            (c\<lparr>m_currentResponse := None, effects := effects c @ [Intercept i req]\<rparr>))"

definition onHeadersParsed :: "env \<Rightarrow> headers_read_result \<Rightarrow> coroutine \<Rightarrow> coroutine \<times> action" where
  "onHeadersParsed e headersReadResult c =
     (let m = line_method (startingLine headersReadResult);
          p = line_path (startingLine headersReadResult);
          c1 = c\<lparr>m_currentRoute := getRoute e m p, effects := effects c @ [GetRoute m p]\<rparr> in
      case m_currentRoute c1 of
        None \<Rightarrow>
          onResponseFormed e
            (c1\<lparr>m_currentResponse := Some (errorHandler e CODE_404 ''Current url has no mapping'' None),
                effects := effects c1 @ [HandleError CODE_404 ''Current url has no mapping'' None]\<rparr>)
      | Some rt \<Rightarrow>
          (let req = createShared (startingLine headersReadResult) (matchMap rt)
                       (result_headers headersReadResult);
               c2 = c1\<lparr>m_currentRequest := Some req\<rparr> in
           case interceptWalk (requestInterceptors e) 0 req c2 of
             (c3, Inl x) \<Rightarrow> (c3, Thrown x)
           | (c3, Inr True) \<Rightarrow> onResponseFormed e c3
           | (c3, Inr False) \<Rightarrow> onRequestFormed c3))"

definition onRequestDone :: "coroutine \<Rightarrow> coroutine \<times> action" where
  "onRequestDone c =
     (if m_connectionState c = CONNECTION_STATE_KEEP_ALIVE then parseHeaders c
      else if m_connectionState c = CONNECTION_STATE_UPGRADE then
        (case m_currentResponse c of
           None \<Rightarrow> (c, NullDereference)
         | Some r \<Rightarrow>
             (case connectionUpgradeHandler r of
                Some h \<Rightarrow>
                  (c\<lparr>effects := effects c @ [HandleConnection h (connectionUpgradeParameters r)]\<rparr>,
                   Finish)
              | None \<Rightarrow>
                  (c\<lparr>effects := effects c @ [LogD ''Warning. ConnectionUpgradeHandler not set!'']\<rparr>,
                   Finish)))
      else (c, Finish))"

text \<open>\<^verbatim>\<open>Coroutine::handleError\<close>; the argument is \<open>None\<close> for an empty error pointer.\<close>

definition handleError :: "env \<Rightarrow> async_error option \<Rightarrow> coroutine \<Rightarrow> coroutine \<times> action" where
  "handleError e error c =
     (case error of
        None \<Rightarrow> (c, ErrorAction None)
      | Some err \<Rightarrow>
          (if isBrokenPipe err then (c, ErrorAction (Some err))
           else
             (case m_currentResponse c of
                Some r \<Rightarrow>
                  (c\<lparr>effects := effects c @
                      [LogE (''Unhandled error. '' @ [CHR 0x27] @ what err @ [CHR 0x27]
                             @ ''. Dropping connection'')]\<rparr>,
                   ErrorAction (Some err))
              | None \<Rightarrow>
                  onResponseFormed e
                    (c\<lparr>m_currentResponse := Some (errorHandler e CODE_500 (what err) None),
                       effects := effects c @ [HandleError CODE_500 (what err) None]\<rparr>))))"

text \<open>
  Modelled from the spec: the scheduler that resumes the coroutine is not part of the
  file embedded here. The step that follows each suspension is the one the source names
  there (\<^verbatim>\<open>callbackTo(&onHeadersParsed)\<close>, \<^verbatim>\<open>callbackTo(&onResponse)\<close>,
  \<^verbatim>\<open>next(yieldTo(&onRequestDone))\<close>, \<^verbatim>\<open>next(yieldTo(&parseHeaders))\<close>); that it runs on the
  result of the awaited operation, and that a failed operation leads to \<^verbatim>\<open>handleError\<close>,
  is the spec's state table: ``any state may fail; failures route to a dedicated
  HandleError transition''. A terminal action ends the coroutine, and an event that does
  not answer the pending suspension is not delivered.
\<close>

datatype event =
  ContextsReady
  | HeadersRead headers_read_result
  | HandlerDone response
  | ResponseSent
  | Failed async_error

fun resume :: "env \<Rightarrow> coroutine \<times> action \<Rightarrow> event \<Rightarrow> coroutine \<times> action" where
  "resume e (c, WaitInitContexts) ev =
     (case ev of
        ContextsReady \<Rightarrow> parseHeaders c
      | Failed err \<Rightarrow> handleError e (Some err) c
      | _ \<Rightarrow> (c, WaitInitContexts))"
| "resume e (c, WaitReadHeaders) ev =
     (case ev of
        HeadersRead r \<Rightarrow> onHeadersParsed e r c
      | Failed err \<Rightarrow> handleError e (Some err) c
      | _ \<Rightarrow> (c, WaitReadHeaders))"
| "resume e (c, WaitHandleAsync req) ev =
     (case ev of
        HandlerDone r \<Rightarrow> onResponse e r c
      | Failed err \<Rightarrow> handleError e (Some err) c
      | _ \<Rightarrow> (c, WaitHandleAsync req))"
| "resume e (c, WaitSend r) ev =
     (case ev of
        ResponseSent \<Rightarrow> onRequestDone c
      | Failed err \<Rightarrow> handleError e (Some err) c
      | _ \<Rightarrow> (c, WaitSend r))"
| "resume e (c, Finish) ev = (c, Finish)"
| "resume e (c, ErrorAction x) ev = (c, ErrorAction x)"
| "resume e (c, Thrown x) ev = (c, Thrown x)"
| "resume e (c, NullDereference) ev = (c, NullDereference)"

text \<open>The coroutine driven through a finite sequence of events.\<close>

definition run :: "env \<Rightarrow> coroutine \<times> action \<Rightarrow> event list \<Rightarrow> coroutine \<times> action" where
  "run e s evs = foldl (resume e) s evs"

section \<open>A concrete server, for evaluating the engine\<close>

text \<open>
  Modelled from the spec: \<^verbatim>\<open>CommunicationUtils::considerConnectionState\<close> is not part of
  the file embedded here. The spec's connection-state rule: ``KEEP_ALIVE by default for
  HTTP/1.1 absent an explicit Connection: close; CLOSE by default for HTTP/1.0 absent an
  explicit Connection: keep-alive; UPGRADE when the response carries an upgrade handler
  and a matching status/headers (e.g., protocol-switch status with Upgrade header).''
  A Connection header of the response is read before one of the request; with an empty
  request no protocol version is known and the HTTP/1.0 default applies. The engine
  itself takes the resolver as a parameter; this one is used at concrete inputs only.
\<close>

definition considerConnectionState_spec :: "request option \<Rightarrow> response \<Rightarrow> connection_state" where
  "considerConnectionState_spec rq r =
     (if connectionUpgradeHandler r \<noteq> None \<and> code (response_status r) = 101
         \<and> map_of (response_headers r) ''Upgrade'' \<noteq> None
      then CONNECTION_STATE_UPGRADE
      else
        (case rq of
           None \<Rightarrow>
             (if map_of (response_headers r) ''Connection'' = Some ''keep-alive''
              then CONNECTION_STATE_KEEP_ALIVE else CONNECTION_STATE_CLOSE)
         | Some q \<Rightarrow>
             (let explicit =
                    (case map_of (response_headers r) ''Connection'' of
                       Some v \<Rightarrow> Some v
                     | None \<Rightarrow> map_of (request_headers q) ''Connection'') in
              if line_protocol (request_startingLine q) = ''HTTP/1.1'' then
                (if explicit = Some ''close''
                 then CONNECTION_STATE_CLOSE else CONNECTION_STATE_KEEP_ALIVE)
              else
                (if explicit = Some ''keep-alive''
                 then CONNECTION_STATE_KEEP_ALIVE else CONNECTION_STATE_CLOSE))))"

text \<open>
  An error handler as an application may supply one: the status, the given headers and
  the message as the body, nothing else.
\<close>

definition plainErrorHandler :: "status \<Rightarrow> string \<Rightarrow> headers option \<Rightarrow> response" where
  "plainErrorHandler st msg hs =
     \<lparr>response_status = st,
      response_headers = (case hs of None \<Rightarrow> [] | Some h \<Rightarrow> h),
      body = msg,
      connectionUpgradeHandler = None,
      connectionUpgradeParameters = []\<rparr>"

definition CODE_200 :: status where
  "CODE_200 = \<lparr>code = 200, description = ''OK''\<rparr>"

definition CODE_400 :: status where
  "CODE_400 = \<lparr>code = 400, description = ''Bad Request''\<rparr>"

definition CODE_401 :: status where
  "CODE_401 = \<lparr>code = 401, description = ''Unauthorized''\<rparr>"

definition CODE_403 :: status where
  "CODE_403 = \<lparr>code = 403, description = ''Forbidden''\<rparr>"

definition helloResponse :: response where
  "helloResponse =
     \<lparr>response_status = CODE_200, response_headers = [(''Content-Type'', ''text/plain'')],
      body = ''Hello'', connectionUpgradeHandler = None, connectionUpgradeParameters = []\<rparr>"

definition deniedResponse :: response where
  "deniedResponse =
     \<lparr>response_status = CODE_401, response_headers = [(''Server'', ''gateway'')],
      body = ''denied'', connectionUpgradeHandler = None, connectionUpgradeParameters = []\<rparr>"

text \<open>
  Four routes: \<^verbatim>\<open>GET /hello\<close> answers, \<^verbatim>\<open>GET /private\<close> answers too (an interceptor guards
  it), \<^verbatim>\<open>GET /admin\<close> throws the structured error 403 ``forbidden'' with a
  \<^verbatim>\<open>Connection: close\<close> header, and \<^verbatim>\<open>GET /crash\<close> throws a plain exception.
\<close>

definition helloRoute :: route where
  "helloRoute = \<lparr>handle = (\<lambda>req. Inr helloResponse), matchMap = []\<rparr>"

definition adminRoute :: route where
  "adminRoute =
     \<lparr>handle = (\<lambda>req. Inl (HttpError CODE_403 ''forbidden'' [(''Connection'', ''close'')])),
      matchMap = []\<rparr>"

definition crashRoute :: route where
  "crashRoute = \<lparr>handle = (\<lambda>req. Inl (StdException ''boom'')), matchMap = []\<rparr>"

definition exampleRouter :: "string \<Rightarrow> string \<Rightarrow> route option" where
  "exampleRouter m p =
     (if m = ''GET'' \<and> (p = ''/hello'' \<or> p = ''/private'') then Some helloRoute
      else if m = ''GET'' \<and> p = ''/admin'' then Some adminRoute
      else if m = ''GET'' \<and> p = ''/crash'' then Some crashRoute
      else None)"

text \<open>Two interceptors: the first lets everything pass, the second answers for \<^verbatim>\<open>/private\<close>.\<close>

definition passInterceptor :: interceptor where
  "passInterceptor req = Inr None"

definition guardInterceptor :: interceptor where
  "guardInterceptor req =
     (if line_path (request_startingLine req) = ''/private'' then Inr (Some deniedResponse)
      else Inr None)"

definition exampleEnv :: env where
  "exampleEnv =
     \<lparr>getRoute = exampleRouter,
      errorHandler = plainErrorHandler,
      requestInterceptors = [passInterceptor, guardInterceptor],
      considerConnectionState = considerConnectionState_spec\<rparr>"

text \<open>Header-read outcomes: a well-formed HTTP/1.1 \<^verbatim>\<open>GET\<close> of a path, a parse error, a closed stream.\<close>

definition okInfo :: error_info where
  "okInfo = \<lparr>info_status = \<lparr>code = 0, description = []\<rparr>, ioStatus = 64\<rparr>"

definition getHeaders :: "string \<Rightarrow> headers_read_result" where
  "getHeaders p =
     \<lparr>startingLine = \<lparr>line_method = ''GET'', line_path = p, line_protocol = ''HTTP/1.1''\<rparr>,
      result_headers = [(''Host'', ''localhost'')]\<rparr>"

definition getRead :: "string \<Rightarrow> read_outcome" where
  "getRead p = \<lparr>read_result = getHeaders p, read_error = okInfo\<rparr>"

definition malformedRead :: read_outcome where
  "malformedRead =
     \<lparr>read_result = getHeaders ''/hello'',
      read_error = \<lparr>info_status = CODE_400, ioStatus = 64\<rparr>\<rparr>"

definition closedRead :: read_outcome where
  "closedRead =
     \<lparr>read_result = getHeaders ''/hello'',
      read_error = \<lparr>info_status = \<lparr>code = 0, description = []\<rparr>, ioStatus = 0\<rparr>\<rparr>"

text \<open>The coroutine as constructed: no route, request or response yet.\<close>

definition newCoroutine :: coroutine where
  "newCoroutine =
     \<lparr>m_currentRoute = None, m_currentRequest = None, m_currentResponse = None,
      m_connectionState = CONNECTION_STATE_KEEP_ALIVE, effects = []\<rparr>"

text \<open>The request the engine builds for \<^verbatim>\<open>GET p\<close> on one of the routes above.\<close>

definition exampleRequest :: "string \<Rightarrow> request" where
  "exampleRequest p =
     \<lparr>request_startingLine = \<lparr>line_method = ''GET'', line_path = p, line_protocol = ''HTTP/1.1''\<rparr>,
      pathVariables = [],
      request_headers = [(''Host'', ''localhost'')]\<rparr>"

text \<open>What the error handler above answers on the three error paths used below.\<close>

definition forbiddenResponse :: response where
  "forbiddenResponse =
     \<lparr>response_status = CODE_403, response_headers = [(''Connection'', ''close'')],
      body = ''forbidden'', connectionUpgradeHandler = None, connectionUpgradeParameters = []\<rparr>"

definition crashResponse :: response where
  "crashResponse =
     \<lparr>response_status = CODE_500, response_headers = [],
      body = ''boom'', connectionUpgradeHandler = None, connectionUpgradeParameters = []\<rparr>"

definition notFoundResponse :: response where
  "notFoundResponse =
     \<lparr>response_status = CODE_404, response_headers = [],
      body = ''Current url has no mapping'', connectionUpgradeHandler = None,
      connectionUpgradeParameters = []\<rparr>"

text \<open>A response after the default server header was appended to its headers.\<close>

definition withServerHeader :: "response \<Rightarrow> response" where
  "withServerHeader r =
     r\<lparr>response_headers := response_headers r @ [(Header_SERVER, Header_Value_SERVER)]\<rparr>"

section \<open>Evaluation rules\<close>

lemmas example_defs =
  exampleEnv_def exampleRouter_def getRead_def getHeaders_def okInfo_def exampleRequest_def
  createShared_def helloRoute_def passInterceptor_def guardInterceptor_def

lemmas eval_defs =
  processRequest_def tryBlock_def Let_def exampleEnv_def exampleRouter_def getRead_def
  getHeaders_def okInfo_def exampleRequest_def createShared_def helloRoute_def adminRoute_def
  crashRoute_def passInterceptor_def guardInterceptor_def plainErrorHandler_def
  considerConnectionState_spec_def putHeaderIfNotExists_def Header_SERVER_def
  Header_Value_SERVER_def forbiddenResponse_def crashResponse_def notFoundResponse_def
  helloResponse_def deniedResponse_def withServerHeader_def
  CODE_200_def CODE_401_def CODE_403_def CODE_404_def CODE_500_def

lemmas coroutine_defs =
  run_def act_def parseHeaders_def onHeadersParsed_def onRequestFormed_def onResponse_def
  onResponseFormed_def onRequestDone_def handleError_def newCoroutine_def

section \<open>Malformed headers and exhausted streams\<close>

text \<open>
  Claim C5. When the header reader reports a parse-level error (a status with a
  non-zero code), \<^verbatim>\<open>processRequest\<close> returns the error handler's response for that status
  with the message ``Invalid request headers'', sets the connection state to CLOSE, and
  calls nothing but the error handler: the router is not consulted, and no route table
  changes the result.
\<close>

theorem processRequest_malformed_headers:
  assumes "code (info_status (read_error rd)) \<noteq> 0"
  shows "processRequest e rd cs =
           (Some (errorHandler e (info_status (read_error rd)) ''Invalid request headers'' None),
            CONNECTION_STATE_CLOSE,
            [HandleError (info_status (read_error rd)) ''Invalid request headers'' None])
         \<and> (\<forall>g. processRequest (e\<lparr>getRoute := g\<rparr>) rd cs = processRequest e rd cs)"
  using assms by (simp add: processRequest_def Let_def)

theorem processRequest_malformed_headers_witness:
  "code (info_status (read_error malformedRead)) \<noteq> 0
   \<and> processRequest exampleEnv malformedRead CONNECTION_STATE_KEEP_ALIVE =
       (Some \<lparr>response_status = CODE_400, response_headers = [],
              body = ''Invalid request headers'',
              connectionUpgradeHandler = None, connectionUpgradeParameters = []\<rparr>,
        CONNECTION_STATE_CLOSE,
        [HandleError CODE_400 ''Invalid request headers'' None])
   \<and> processRequest (exampleEnv\<lparr>getRoute := (\<lambda>m p. None)\<rparr>) malformedRead CONNECTION_STATE_KEEP_ALIVE =
       processRequest exampleEnv malformedRead CONNECTION_STATE_KEEP_ALIVE"
proof -
  have h: "code (info_status (read_error malformedRead)) \<noteq> 0"
    by (simp add: malformedRead_def CODE_400_def)
  note t = processRequest_malformed_headers [OF h, of exampleEnv CONNECTION_STATE_KEEP_ALIVE]
  have st: "info_status (read_error malformedRead) = CODE_400"
    by (simp add: malformedRead_def)
  have eh: "errorHandler exampleEnv CODE_400 ''Invalid request headers'' None =
              \<lparr>response_status = CODE_400, response_headers = [],
               body = ''Invalid request headers'',
               connectionUpgradeHandler = None, connectionUpgradeParameters = []\<rparr>"
    by (simp add: exampleEnv_def plainErrorHandler_def)
  from conjunct1 [OF t] have a:
    "processRequest exampleEnv malformedRead CONNECTION_STATE_KEEP_ALIVE =
       (Some \<lparr>response_status = CODE_400, response_headers = [],
              body = ''Invalid request headers'',
              connectionUpgradeHandler = None, connectionUpgradeParameters = []\<rparr>,
        CONNECTION_STATE_CLOSE,
        [HandleError CODE_400 ''Invalid request headers'' None])"
    by (simp only: st eh)
  from conjunct2 [OF t] have b:
    "processRequest (exampleEnv\<lparr>getRoute := (\<lambda>m p. None)\<rparr>) malformedRead CONNECTION_STATE_KEEP_ALIVE =
       processRequest exampleEnv malformedRead CONNECTION_STATE_KEEP_ALIVE"
    by (rule spec)
  from h a b show ?thesis by (intro conjI)
qed

text \<open>
  Claim C6. When the header reader reports no parse error and a non-positive I/O status,
  \<^verbatim>\<open>processRequest\<close> returns no response (and calls nothing), and the loop of
  \<^verbatim>\<open>Task::run\<close> returns at once: whatever further requests the stream might hold, this
  iteration sends nothing and no further iteration runs.
\<close>

theorem processRequest_io_exhausted:
  assumes "code (info_status (read_error rd)) = 0" and "ioStatus (read_error rd) \<le> 0"
  shows "processRequest e rd cs = (None, CONNECTION_STATE_CLOSE, [])
         \<and> Task_loop e (rd # rds) cs = Some []
         \<and> Task_run e (rd # rds) = Some [InitContexts]"
  using assms by (simp add: processRequest_def Let_def Task_run_def)

theorem processRequest_io_exhausted_witness:
  "code (info_status (read_error closedRead)) = 0 \<and> ioStatus (read_error closedRead) \<le> 0
   \<and> processRequest exampleEnv closedRead CONNECTION_STATE_KEEP_ALIVE =
       (None, CONNECTION_STATE_CLOSE, [])
   \<and> Task_loop exampleEnv [closedRead, getRead ''/hello''] CONNECTION_STATE_KEEP_ALIVE = Some []
   \<and> Task_run exampleEnv [closedRead, getRead ''/hello''] = Some [InitContexts]"
proof -
  have h1: "code (info_status (read_error closedRead)) = 0"
    and h2: "ioStatus (read_error closedRead) \<le> 0"
    by (simp_all add: closedRead_def)
  from processRequest_io_exhausted [OF h1 h2, of exampleEnv CONNECTION_STATE_KEEP_ALIVE "[getRead ''/hello'']"] h1 h2
  show ?thesis by simp
qed

section \<open>The interceptor chain\<close>

lemma upt_head: "n \<le> m \<Longrightarrow> [n..<Suc m] = n # [Suc n..<Suc m]"
  by (rule upt_conv_Cons) simp

lemma interceptLoop_answer:
  "\<forall>g\<in>set pre. g req = Inr None \<Longrightarrow> f req = Inr (Some r) \<Longrightarrow>
   interceptLoop (pre @ f # post) n req =
     (Inr (Some r), map (\<lambda>i. Intercept i req) [n..<n + Suc (length pre)])"
proof (induction pre arbitrary: n)
  case Nil
  then show ?case by simp
next
  case (Cons g pre)
  from Cons.prems have g: "g req = Inr None" by simp
  from Cons.prems have rest: "\<forall>h\<in>set pre. h req = Inr None" by simp
  have "interceptLoop (pre @ f # post) (Suc n) req =
          (Inr (Some r), map (\<lambda>i. Intercept i req) [Suc n..<Suc n + Suc (length pre)])"
    using Cons.IH [OF rest Cons.prems(2)] .
  then show ?case using g upt_head [of n "Suc (n + length pre)"] by (simp del: upt_Suc)
qed

lemma interceptLoop_pass:
  "\<forall>g\<in>set fs. g req = Inr None \<Longrightarrow>
   interceptLoop fs n req = (Inr None, map (\<lambda>i. Intercept i req) [n..<n + length fs])"
proof (induction fs arbitrary: n)
  case Nil
  then show ?case by simp
next
  case (Cons g fs)
  from Cons.prems have g: "g req = Inr None" by simp
  from Cons.prems have rest: "\<forall>h\<in>set fs. h req = Inr None" by simp
  show ?case using Cons.IH [OF rest, of "Suc n"] g upt_head [of n "n + length fs"]
    by (simp del: upt_Suc)
qed

lemma interceptWalk_answer:
  "\<forall>g\<in>set pre. g req = Inr None \<Longrightarrow> f req = Inr (Some r) \<Longrightarrow>
   interceptWalk (pre @ f # post) n req c =
     (c\<lparr>m_currentResponse := Some r,
        effects := effects c @ map (\<lambda>i. Intercept i req) [n..<n + Suc (length pre)]\<rparr>, Inr True)"
proof (induction pre arbitrary: n c)
  case Nil
  then show ?case by simp
next
  case (Cons g pre)
  from Cons.prems have g: "g req = Inr None" by simp
  from Cons.prems have rest: "\<forall>h\<in>set pre. h req = Inr None" by simp
  show ?case
    using Cons.IH [OF rest Cons.prems(2), of "Suc n"] g upt_head [of n "Suc (n + length pre)"]
    by (simp del: upt_Suc)
qed

lemma interceptWalk_pass:
  "\<forall>g\<in>set fs. g req = Inr None \<Longrightarrow>
   interceptWalk fs n req c =
     (c\<lparr>m_currentResponse := (if fs = [] then m_currentResponse c else None),
        effects := effects c @ map (\<lambda>i. Intercept i req) [n..<n + length fs]\<rparr>, Inr False)"
proof (induction fs arbitrary: n c)
  case Nil
  then show ?case by simp
next
  case (Cons g fs)
  from Cons.prems have g: "g req = Inr None" by simp
  from Cons.prems have rest: "\<forall>h\<in>set fs. h req = Inr None" by simp
  show ?case
    using Cons.IH [OF rest, of "Suc n"] g upt_head [of n "n + length fs"]
    by (simp del: upt_Suc)
qed

lemma processRequest_answered:
  assumes ok: "code (info_status (read_error rd)) = 0" "0 < ioStatus (read_error rd)"
    and m: "m = line_method (startingLine (read_result rd))"
    and p: "p = line_path (startingLine (read_result rd))"
    and rt: "getRoute e m p = Some rt"
    and req: "req = createShared (startingLine (read_result rd)) (matchMap rt)
                      (result_headers (read_result rd))"
    and tb: "tryBlock e rt req = (Inr r, effs)"
    and stamped: "r' = putHeaderIfNotExists Header_SERVER Header_Value_SERVER r"
  shows "processRequest e rd cs =
           (Some r', considerConnectionState e (Some req) r', GetRoute m p # effs)"
proof -
  have "\<not> ioStatus (read_error rd) \<le> 0" using ok(2) by simp
  with ok(1) rt tb show ?thesis
    unfolding processRequest_def m p req stamped by (simp add: Let_def)
qed

text \<open>
  Claim C7. Let the header read succeed and the route be matched, and let the
  interceptors \<open>pre\<close> return empty for the request. If the chain is \<open>pre\<close>, then \<open>f\<close>,
  then \<open>post\<close>, and \<open>f\<close> answers with \<open>r\<close>, then in both strategies exactly the
  interceptors up to \<open>f\<close> are called, in insertion order; neither \<open>post\<close> nor the endpoint
  is called (whatever they would do), and \<open>r\<close> is stamped with the server header, the
  connection state is computed from the request and the stamped response, and the
  response is returned for sending (blocking) or handed to the send (cooperative).
  If the chain is \<open>pre\<close> alone, all interceptors are called in order and then the matched
  endpoint with the request; its response goes the same way: stamped, state computed,
  sent. In the blocking strategy the sending is the loop's: whatever response
  \<^verbatim>\<open>processRequest\<close> returns, from an interceptor or from the endpoint, is sent by the
  same statement, and the loop goes on or ends by the state returned with it.
\<close>

theorem interceptors_walk_in_order:
  assumes ok: "code (info_status (read_error rd)) = 0" "0 < ioStatus (read_error rd)"
    and m: "m = line_method (startingLine (read_result rd))"
    and p: "p = line_path (startingLine (read_result rd))"
    and rt: "getRoute e m p = Some rt"
    and req: "req = createShared (startingLine (read_result rd)) (matchMap rt)
                      (result_headers (read_result rd))"
    and pass: "\<forall>g\<in>set pre. g req = Inr None"
    and stamped: "r' = putHeaderIfNotExists Header_SERVER Header_Value_SERVER r"
  shows
    "(requestInterceptors e = pre @ f # post \<and> f req = Inr (Some r) \<longrightarrow>
        processRequest e rd cs =
          (Some r', considerConnectionState e (Some req) r',
           GetRoute m p # map (\<lambda>i. Intercept i req) [0..<Suc (length pre)])
      \<and> onHeadersParsed e (read_result rd) c =
          (c\<lparr>m_currentRoute := Some rt, m_currentRequest := Some req,
             m_currentResponse := Some r',
             m_connectionState := considerConnectionState e (Some req) r',
             effects := effects c @ GetRoute m p # map (\<lambda>i. Intercept i req) [0..<Suc (length pre)]
                          @ [SendAsync r']\<rparr>,
           WaitSend r'))
     \<and> (requestInterceptors e = pre \<longrightarrow>
        (handle rt req = Inr r \<longrightarrow>
           processRequest e rd cs =
             (Some r', considerConnectionState e (Some req) r',
              GetRoute m p # map (\<lambda>i. Intercept i req) [0..<length pre] @ [Handle req]))
      \<and> onHeadersParsed e (read_result rd) c =
          (c\<lparr>m_currentRoute := Some rt, m_currentRequest := Some req,
             m_currentResponse := (if pre = [] then m_currentResponse c else None),
             effects := effects c @ GetRoute m p # map (\<lambda>i. Intercept i req) [0..<length pre]
                          @ [HandleAsync req]\<rparr>,
           WaitHandleAsync req)
      \<and> onResponse e r c2 =
          (c2\<lparr>m_currentResponse := Some r',
              m_connectionState := considerConnectionState e (m_currentRequest c2) r',
              effects := effects c2 @ [SendAsync r']\<rparr>,
           WaitSend r'))
     \<and> (\<forall>sent st effs. processRequest e rd cs = (Some sent, st, effs) \<longrightarrow>
          Task_loop e (rd # rds) cs =
            (if st = CONNECTION_STATE_KEEP_ALIVE then
               (case Task_loop e rds CONNECTION_STATE_KEEP_ALIVE of
                  None \<Rightarrow> None
                | Some rest \<Rightarrow> Some (effs @ Send sent # rest))
             else Some (effs @ Send sent # afterLoop st sent)))"
proof (intro conjI impI allI)
  assume a: "requestInterceptors e = pre @ f # post \<and> f req = Inr (Some r)"
  have "interceptLoop (requestInterceptors e) 0 req =
          (Inr (Some r), map (\<lambda>i. Intercept i req) [0..<Suc (length pre)])"
    using interceptLoop_answer [OF pass, of f r post 0] a by simp
  then have tb: "tryBlock e rt req = (Inr r, map (\<lambda>i. Intercept i req) [0..<Suc (length pre)])"
    by (simp add: tryBlock_def)
  show "processRequest e rd cs =
          (Some r', considerConnectionState e (Some req) r',
           GetRoute m p # map (\<lambda>i. Intercept i req) [0..<Suc (length pre)])"
    by (rule processRequest_answered [OF ok m p rt req tb stamped])
next
  assume a: "requestInterceptors e = pre @ f # post \<and> f req = Inr (Some r)"
  have w: "\<And>c0. interceptWalk (requestInterceptors e) 0 req c0 =
          (c0\<lparr>m_currentResponse := Some r,
              effects := effects c0 @ map (\<lambda>i. Intercept i req) [0..<Suc (length pre)]\<rparr>, Inr True)"
    using interceptWalk_answer [OF pass, of f r post 0] a by simp
  show "onHeadersParsed e (read_result rd) c =
          (c\<lparr>m_currentRoute := Some rt, m_currentRequest := Some req,
             m_currentResponse := Some r',
             m_connectionState := considerConnectionState e (Some req) r',
             effects := effects c @ GetRoute m p # map (\<lambda>i. Intercept i req) [0..<Suc (length pre)]
                          @ [SendAsync r']\<rparr>,
           WaitSend r')"
    using rt unfolding onHeadersParsed_def m p req stamped
    by (simp add: Let_def w [unfolded req] onResponseFormed_def del: upt_Suc)
next
  assume a: "requestInterceptors e = pre" and h: "handle rt req = Inr r"
  have "interceptLoop (requestInterceptors e) 0 req =
          (Inr None, map (\<lambda>i. Intercept i req) [0..<length pre])"
    using interceptLoop_pass [OF pass, of 0] a by simp
  then have tb: "tryBlock e rt req =
                   (Inr r, map (\<lambda>i. Intercept i req) [0..<length pre] @ [Handle req])"
    using h by (simp add: tryBlock_def)
  show "processRequest e rd cs =
          (Some r', considerConnectionState e (Some req) r',
           GetRoute m p # map (\<lambda>i. Intercept i req) [0..<length pre] @ [Handle req])"
    by (rule processRequest_answered [OF ok m p rt req tb stamped])
next
  assume a: "requestInterceptors e = pre"
  have w: "\<And>c0. interceptWalk (requestInterceptors e) 0 req c0 =
          (c0\<lparr>m_currentResponse := (if pre = [] then m_currentResponse c0 else None),
              effects := effects c0 @ map (\<lambda>i. Intercept i req) [0..<length pre]\<rparr>, Inr False)"
    using interceptWalk_pass [OF pass, of 0] a by simp
  show "onHeadersParsed e (read_result rd) c =
          (c\<lparr>m_currentRoute := Some rt, m_currentRequest := Some req,
             m_currentResponse := (if pre = [] then m_currentResponse c else None),
             effects := effects c @ GetRoute m p # map (\<lambda>i. Intercept i req) [0..<length pre]
                          @ [HandleAsync req]\<rparr>,
           WaitHandleAsync req)"
    using rt unfolding onHeadersParsed_def m p req
    by (simp add: Let_def w [unfolded req] onRequestFormed_def)
next
  assume a: "requestInterceptors e = pre"
  show "onResponse e r c2 =
          (c2\<lparr>m_currentResponse := Some r',
              m_connectionState := considerConnectionState e (m_currentRequest c2) r',
              effects := effects c2 @ [SendAsync r']\<rparr>,
           WaitSend r')"
    unfolding stamped by (simp add: onResponse_def onResponseFormed_def Let_def)
next
  fix sent st effs
  assume "processRequest e rd cs = (Some sent, st, effs)"
  then show "Task_loop e (rd # rds) cs =
            (if st = CONNECTION_STATE_KEEP_ALIVE then
               (case Task_loop e rds CONNECTION_STATE_KEEP_ALIVE of
                  None \<Rightarrow> None
                | Some rest \<Rightarrow> Some (effs @ Send sent # rest))
             else Some (effs @ Send sent # afterLoop st sent))"
    by simp
qed


theorem interceptors_walk_in_order_witness:
  "processRequest exampleEnv (getRead ''/private'') CONNECTION_STATE_CLOSE =
     (Some deniedResponse, CONNECTION_STATE_KEEP_ALIVE,
      [GetRoute ''GET'' ''/private'', Intercept 0 (exampleRequest ''/private''),
       Intercept 1 (exampleRequest ''/private'')])
   \<and> snd (onHeadersParsed exampleEnv (getHeaders ''/private'') newCoroutine) = WaitSend deniedResponse
   \<and> processRequest exampleEnv (getRead ''/hello'') CONNECTION_STATE_CLOSE =
     (Some (helloResponse\<lparr>response_headers := [(''Content-Type'', ''text/plain''), (''Server'', ''oatpp'')]\<rparr>),
      CONNECTION_STATE_KEEP_ALIVE,
      [GetRoute ''GET'' ''/hello'', Intercept 0 (exampleRequest ''/hello''),
       Intercept 1 (exampleRequest ''/hello''), Handle (exampleRequest ''/hello'')])
   \<and> snd (onHeadersParsed exampleEnv (getHeaders ''/hello'') newCoroutine) =
       WaitHandleAsync (exampleRequest ''/hello'')
   \<and> Task_loop exampleEnv [getRead ''/private'', closedRead] CONNECTION_STATE_CLOSE =
       Some [GetRoute ''GET'' ''/private'', Intercept 0 (exampleRequest ''/private''),
             Intercept 1 (exampleRequest ''/private''), Send deniedResponse]"
proof -
  have st1: "putHeaderIfNotExists Header_SERVER Header_Value_SERVER deniedResponse = deniedResponse"
    by (simp add: putHeaderIfNotExists_def deniedResponse_def Header_SERVER_def)
  have st2: "helloResponse\<lparr>response_headers := [(''Content-Type'', ''text/plain''), (''Server'', ''oatpp'')]\<rparr>
               = putHeaderIfNotExists Header_SERVER Header_Value_SERVER helloResponse"
    by (simp add: putHeaderIfNotExists_def helloResponse_def Header_SERVER_def Header_Value_SERVER_def)
  have cs1: "considerConnectionState exampleEnv (Some (exampleRequest ''/private'')) deniedResponse
               = CONNECTION_STATE_KEEP_ALIVE"
    by (simp add: exampleEnv_def considerConnectionState_spec_def exampleRequest_def
          deniedResponse_def CODE_401_def)
  have cs2: "considerConnectionState exampleEnv (Some (exampleRequest ''/hello''))
               (helloResponse\<lparr>response_headers := [(''Content-Type'', ''text/plain''), (''Server'', ''oatpp'')]\<rparr>)
               = CONNECTION_STATE_KEEP_ALIVE"
    by (simp add: exampleEnv_def considerConnectionState_spec_def exampleRequest_def
          helloResponse_def CODE_200_def)
  have t1: "(requestInterceptors exampleEnv = [passInterceptor] @ guardInterceptor # [] \<and>
             guardInterceptor (exampleRequest ''/private'') = Inr (Some deniedResponse) \<longrightarrow>
             processRequest exampleEnv (getRead ''/private'') CONNECTION_STATE_CLOSE =
               (Some deniedResponse,
                considerConnectionState exampleEnv (Some (exampleRequest ''/private'')) deniedResponse,
                GetRoute ''GET'' ''/private'' #
                  map (\<lambda>i. Intercept i (exampleRequest ''/private'')) [0..<Suc (length [passInterceptor])])
             \<and> onHeadersParsed exampleEnv (read_result (getRead ''/private'')) newCoroutine =
               (newCoroutine\<lparr>m_currentRoute := Some helloRoute,
                  m_currentRequest := Some (exampleRequest ''/private''),
                  m_currentResponse := Some deniedResponse,
                  m_connectionState :=
                    considerConnectionState exampleEnv (Some (exampleRequest ''/private'')) deniedResponse,
                  effects := effects newCoroutine @ GetRoute ''GET'' ''/private'' #
                    map (\<lambda>i. Intercept i (exampleRequest ''/private'')) [0..<Suc (length [passInterceptor])]
                    @ [SendAsync deniedResponse]\<rparr>,
                WaitSend deniedResponse))"
    by (rule conjunct1 [OF interceptors_walk_in_order
          [where rd = "getRead ''/private''" and e = exampleEnv and m = "''GET''"
             and p = "''/private''" and rt = helloRoute and req = "exampleRequest ''/private''"
             and pre = "[passInterceptor]" and r = deniedResponse and r' = deniedResponse]])
       (simp_all add: example_defs st1)
  have t2: "(requestInterceptors exampleEnv = [passInterceptor, guardInterceptor] \<longrightarrow>
             (handle helloRoute (exampleRequest ''/hello'') = Inr helloResponse \<longrightarrow>
              processRequest exampleEnv (getRead ''/hello'') CONNECTION_STATE_CLOSE =
               (Some (helloResponse\<lparr>response_headers := [(''Content-Type'', ''text/plain''), (''Server'', ''oatpp'')]\<rparr>),
                considerConnectionState exampleEnv (Some (exampleRequest ''/hello''))
                  (helloResponse\<lparr>response_headers := [(''Content-Type'', ''text/plain''), (''Server'', ''oatpp'')]\<rparr>),
                GetRoute ''GET'' ''/hello'' #
                  map (\<lambda>i. Intercept i (exampleRequest ''/hello'')) [0..<length [passInterceptor, guardInterceptor]]
                  @ [Handle (exampleRequest ''/hello'')]))
             \<and> onHeadersParsed exampleEnv (read_result (getRead ''/hello'')) newCoroutine =
               (newCoroutine\<lparr>m_currentRoute := Some helloRoute,
                  m_currentRequest := Some (exampleRequest ''/hello''),
                  m_currentResponse :=
                    (if [passInterceptor, guardInterceptor] = [] then m_currentResponse newCoroutine else None),
                  effects := effects newCoroutine @ GetRoute ''GET'' ''/hello'' #
                    map (\<lambda>i. Intercept i (exampleRequest ''/hello'')) [0..<length [passInterceptor, guardInterceptor]]
                    @ [HandleAsync (exampleRequest ''/hello'')]\<rparr>,
                WaitHandleAsync (exampleRequest ''/hello''))
             \<and> onResponse exampleEnv helloResponse newCoroutine =
               (newCoroutine\<lparr>m_currentResponse :=
                    Some (helloResponse\<lparr>response_headers := [(''Content-Type'', ''text/plain''), (''Server'', ''oatpp'')]\<rparr>),
                  m_connectionState := considerConnectionState exampleEnv (m_currentRequest newCoroutine)
                    (helloResponse\<lparr>response_headers := [(''Content-Type'', ''text/plain''), (''Server'', ''oatpp'')]\<rparr>),
                  effects := effects newCoroutine @
                    [SendAsync (helloResponse\<lparr>response_headers := [(''Content-Type'', ''text/plain''), (''Server'', ''oatpp'')]\<rparr>)]\<rparr>,
                WaitSend (helloResponse\<lparr>response_headers := [(''Content-Type'', ''text/plain''), (''Server'', ''oatpp'')]\<rparr>)))"
    by (rule conjunct1 [OF conjunct2 [OF interceptors_walk_in_order
          [where rd = "getRead ''/hello''" and e = exampleEnv and m = "''GET''"
             and p = "''/hello''" and rt = helloRoute and req = "exampleRequest ''/hello''"
             and pre = "[passInterceptor, guardInterceptor]" and r = helloResponse]]])
       (simp_all add: example_defs st2)
  have t3: "\<forall>sent st effs.
             processRequest exampleEnv (getRead ''/private'') CONNECTION_STATE_CLOSE = (Some sent, st, effs) \<longrightarrow>
             Task_loop exampleEnv (getRead ''/private'' # [closedRead]) CONNECTION_STATE_CLOSE =
               (if st = CONNECTION_STATE_KEEP_ALIVE then
                  (case Task_loop exampleEnv [closedRead] CONNECTION_STATE_KEEP_ALIVE of
                     None \<Rightarrow> None
                   | Some rest \<Rightarrow> Some (effs @ Send sent # rest))
                else Some (effs @ Send sent # afterLoop st sent))"
    by (rule conjunct2 [OF conjunct2 [OF interceptors_walk_in_order
          [where rd = "getRead ''/private''" and e = exampleEnv and m = "''GET''"
             and p = "''/private''" and rt = helloRoute and req = "exampleRequest ''/private''"
             and pre = "[passInterceptor]" and r = deniedResponse and r' = deniedResponse]]])
       (simp_all add: example_defs st1)
  have nxt: "Task_loop exampleEnv [closedRead] CONNECTION_STATE_KEEP_ALIVE = Some []"
    by (simp add: processRequest_def closedRead_def Let_def)
  have i1: "requestInterceptors exampleEnv = [passInterceptor] @ guardInterceptor # [] \<and>
            guardInterceptor (exampleRequest ''/private'') = Inr (Some deniedResponse)"
    by (simp add: example_defs)
  have i2: "requestInterceptors exampleEnv = [passInterceptor, guardInterceptor]"
    by (simp add: example_defs)
  have h2: "handle helloRoute (exampleRequest ''/hello'') = Inr helloResponse"
    by (simp add: helloRoute_def)
  have rr: "\<And>p. read_result (getRead p) = getHeaders p" by (simp add: getRead_def)
  have up: "[0..<Suc (length [passInterceptor])] = [0, 1]"
           "[0..<length [passInterceptor, guardInterceptor]] = [0, 1]"
    by (simp_all add: upt_rec)
  from t1 [rule_format, OF i1] have a: "processRequest exampleEnv (getRead ''/private'') CONNECTION_STATE_CLOSE =
     (Some deniedResponse, CONNECTION_STATE_KEEP_ALIVE,
      [GetRoute ''GET'' ''/private'', Intercept 0 (exampleRequest ''/private''),
       Intercept 1 (exampleRequest ''/private'')])"
    by (simp only: cs1 up list.map)
  from t1 [rule_format, OF i1] have b:
    "snd (onHeadersParsed exampleEnv (getHeaders ''/private'') newCoroutine) = WaitSend deniedResponse"
    by (simp only: rr snd_conv)
  from t2 [rule_format, OF i2] h2 have c: "processRequest exampleEnv (getRead ''/hello'') CONNECTION_STATE_CLOSE =
     (Some (helloResponse\<lparr>response_headers := [(''Content-Type'', ''text/plain''), (''Server'', ''oatpp'')]\<rparr>),
      CONNECTION_STATE_KEEP_ALIVE,
      [GetRoute ''GET'' ''/hello'', Intercept 0 (exampleRequest ''/hello''),
       Intercept 1 (exampleRequest ''/hello''), Handle (exampleRequest ''/hello'')])"
    by (simp only: cs2 up list.map append.simps)
  from t2 [rule_format, OF i2] have d:
    "snd (onHeadersParsed exampleEnv (getHeaders ''/hello'') newCoroutine) =
       WaitHandleAsync (exampleRequest ''/hello'')"
    by (simp only: rr snd_conv)
  from t3 [rule_format, OF a] nxt
  have e: "Task_loop exampleEnv [getRead ''/private'', closedRead] CONNECTION_STATE_CLOSE =
       Some [GetRoute ''GET'' ''/private'', Intercept 0 (exampleRequest ''/private''),
             Intercept 1 (exampleRequest ''/private''), Send deniedResponse]"
    by simp
  from a b c d e show ?thesis by (intro conjI)
qed

section \<open>The error transition of the cooperative strategy\<close>

text \<open>
  The branches of \<^verbatim>\<open>Coroutine::handleError\<close>, by the tests the source makes. A
  broken-pipe I/O failure is returned as the terminal action with the coroutine
  untouched, so the error handler is not called and nothing is logged. Any other
  failure, when the member \<^verbatim>\<open>m_currentResponse\<close> holds a response (of whichever request
  cycle), is logged at error severity and returned as the terminal action. When the
  member is empty, the error handler's response for status 500 with the failure's
  message becomes the current response and the step continues in \<^verbatim>\<open>onResponseFormed\<close>,
  exactly as \<^verbatim>\<open>onResponse\<close> does for an endpoint's response.
\<close>

lemma handleError_branches:
  "(isBrokenPipe err \<longrightarrow>
      handleError e (Some err) c = (c, ErrorAction (Some err)))
   \<and> (\<not> isBrokenPipe err \<and> m_currentResponse c = Some r \<longrightarrow>
      handleError e (Some err) c =
        (c\<lparr>effects := effects c @
             [LogE (''Unhandled error. '' @ [CHR 0x27] @ what err @ [CHR 0x27]
                    @ ''. Dropping connection'')]\<rparr>,
         ErrorAction (Some err)))
   \<and> (\<not> isBrokenPipe err \<and> m_currentResponse c = None
        \<and> r' = putHeaderIfNotExists Header_SERVER Header_Value_SERVER
                  (errorHandler e CODE_500 (what err) None) \<longrightarrow>
      handleError e (Some err) c =
        (c\<lparr>m_currentResponse := Some r',
           m_connectionState := considerConnectionState e (m_currentRequest c) r',
           effects := effects c @ [HandleError CODE_500 (what err) None, SendAsync r']\<rparr>,
         WaitSend r')
      \<and> handleError e (Some err) c =
          onResponse e (errorHandler e CODE_500 (what err) None)
            (c\<lparr>effects := effects c @ [HandleError CODE_500 (what err) None]\<rparr>))"
  by (simp add: handleError_def onResponse_def onResponseFormed_def Let_def)

section \<open>Failures of interceptors and endpoints in the blocking strategy\<close>

lemma interceptLoop_raise:
  "\<forall>g\<in>set pre. g req = Inr None \<Longrightarrow> f req = Inl x \<Longrightarrow>
   interceptLoop (pre @ f # post) n req =
     (Inl x, map (\<lambda>i. Intercept i req) [n..<n + Suc (length pre)])"
proof (induction pre arbitrary: n)
  case Nil
  then show ?case by simp
next
  case (Cons g pre)
  from Cons.prems have g: "g req = Inr None" by simp
  from Cons.prems have rest: "\<forall>h\<in>set pre. h req = Inr None" by simp
  show ?case
    using Cons.IH [OF rest Cons.prems(2), of "Suc n"] g upt_head [of n "Suc (n + length pre)"]
    by (simp del: upt_Suc)
qed

lemma tryBlock_raises:
  assumes "(requestInterceptors e = pre @ f # post \<and> (\<forall>g\<in>set pre. g req = Inr None)
              \<and> f req = Inl x)
           \<or> ((\<forall>g\<in>set (requestInterceptors e). g req = Inr None) \<and> handle rt req = Inl x)"
  shows "\<exists>effs. tryBlock e rt req = (Inl x, effs)"
  using assms
proof (elim disjE conjE)
  assume a: "requestInterceptors e = pre @ f # post" "\<forall>g\<in>set pre. g req = Inr None" "f req = Inl x"
  show ?thesis
    using interceptLoop_raise [where pre = pre and f = f and req = req and x = x
            and post = post and n = 0] a
    by (simp add: tryBlock_def)
next
  assume a: "\<forall>g\<in>set (requestInterceptors e). g req = Inr None" "handle rt req = Inl x"
  show ?thesis
    using interceptLoop_pass [OF a(1), of 0] a(2) by (simp add: tryBlock_def)
qed

lemma processRequest_caught:
  assumes ok: "code (info_status (read_error rd)) = 0" "0 < ioStatus (read_error rd)"
    and m: "m = line_method (startingLine (read_result rd))"
    and p: "p = line_path (startingLine (read_result rd))"
    and rt: "getRoute e m p = Some rt"
    and req: "req = createShared (startingLine (read_result rd)) (matchMap rt)
                      (result_headers (read_result rd))"
    and tb: "tryBlock e rt req = (Inl x, effs)"
  shows "processRequest e rd cs =
           (Some (fst (catchClauses e x)), cs, GetRoute m p # effs @ [snd (catchClauses e x)])"
proof -
  have nio: "\<not> ioStatus (read_error rd) \<le> 0" using ok(2) by simp
  show ?thesis
    using ok(1) nio rt tb unfolding processRequest_def m p req
    by (simp add: Let_def split: prod.splits)
qed

text \<open>
  Claim C10. Let the header read succeed and the route be matched. If an interceptor
  throws after all earlier ones returned empty, or all interceptors return empty and the
  endpoint throws, then \<^verbatim>\<open>processRequest\<close> calls the error handler and returns its
  response: for an \<^verbatim>\<open>HttpError\<close> with the error's status, message and headers, for
  another \<^verbatim>\<open>std::exception\<close> with status 500 and its \<^verbatim>\<open>what()\<close>, for anything else with
  status 500 and ``Unknown error''. The connection state it returns is the one it was
  entered with, whatever that was. Hence the loop of \<^verbatim>\<open>Task::run\<close>, entered in state
  KEEP_ALIVE, sends that response and goes on to the next iteration, still in state
  KEEP_ALIVE.
\<close>

theorem processRequest_failure_keeps_state:
  assumes ok: "code (info_status (read_error rd)) = 0" "0 < ioStatus (read_error rd)"
    and m: "m = line_method (startingLine (read_result rd))"
    and p: "p = line_path (startingLine (read_result rd))"
    and rt: "getRoute e m p = Some rt"
    and req: "req = createShared (startingLine (read_result rd)) (matchMap rt)
                      (result_headers (read_result rd))"
    and raised:
      "(requestInterceptors e = pre @ f # post \<and> (\<forall>g\<in>set pre. g req = Inr None)
          \<and> f req = Inl x)
       \<or> ((\<forall>g\<in>set (requestInterceptors e). g req = Inr None) \<and> handle rt req = Inl x)"
    and caught:
      "(st, msg, hs) =
         (case x of
            HttpError s t h \<Rightarrow> (s, t, Some h)
          | StdException w \<Rightarrow> (CODE_500, w, None)
          | UnknownException \<Rightarrow> (CODE_500, ''Unknown error'', None))"
  shows "\<exists>effs.
           (\<forall>cs. processRequest e rd cs =
              (Some (errorHandler e st msg hs), cs, GetRoute m p # effs @ [HandleError st msg hs]))
           \<and> (\<forall>rds. Task_loop e (rd # rds) CONNECTION_STATE_KEEP_ALIVE =
               (case Task_loop e rds CONNECTION_STATE_KEEP_ALIVE of
                  None \<Rightarrow> None
                | Some rest \<Rightarrow>
                    Some ((GetRoute m p # effs @ [HandleError st msg hs])
                          @ Send (errorHandler e st msg hs) # rest)))"
proof -
  from tryBlock_raises [OF raised] obtain effs where tb: "tryBlock e rt req = (Inl x, effs)" ..
  have cc: "catchClauses e x = (errorHandler e st msg hs, HandleError st msg hs)"
    using caught by (cases x) simp_all
  have pr: "\<And>cs. processRequest e rd cs =
              (Some (errorHandler e st msg hs), cs, GetRoute m p # effs @ [HandleError st msg hs])"
    using processRequest_caught [OF ok m p rt req tb] by (simp add: cc)
  show ?thesis
  proof (intro exI conjI allI)
    fix cs
    show "processRequest e rd cs =
            (Some (errorHandler e st msg hs), cs, GetRoute m p # effs @ [HandleError st msg hs])"
      by (rule pr)
  next
    fix rds
    show "Task_loop e (rd # rds) CONNECTION_STATE_KEEP_ALIVE =
            (case Task_loop e rds CONNECTION_STATE_KEEP_ALIVE of
               None \<Rightarrow> None
             | Some rest \<Rightarrow>
                 Some ((GetRoute m p # effs @ [HandleError st msg hs])
                       @ Send (errorHandler e st msg hs) # rest))"
      by (simp add: pr)
  qed
qed

theorem processRequest_failure_keeps_state_witness:
  "\<exists>effs.
     processRequest exampleEnv (getRead ''/admin'') CONNECTION_STATE_KEEP_ALIVE =
       (Some forbiddenResponse, CONNECTION_STATE_KEEP_ALIVE,
        GetRoute ''GET'' ''/admin'' # effs
          @ [HandleError CODE_403 ''forbidden'' (Some [(''Connection'', ''close'')])])
     \<and> Task_loop exampleEnv [getRead ''/admin'', closedRead] CONNECTION_STATE_KEEP_ALIVE =
         Some ((GetRoute ''GET'' ''/admin'' # effs
                  @ [HandleError CODE_403 ''forbidden'' (Some [(''Connection'', ''close'')])])
               @ [Send forbiddenResponse])"
proof -
  have eh: "errorHandler exampleEnv CODE_403 ''forbidden'' (Some [(''Connection'', ''close'')]) =
              forbiddenResponse"
    by (simp add: exampleEnv_def plainErrorHandler_def forbiddenResponse_def)
  have nxt: "Task_loop exampleEnv [closedRead] CONNECTION_STATE_KEEP_ALIVE = Some []"
    by (simp add: processRequest_def closedRead_def Let_def)
  have "\<exists>effs.
           (\<forall>cs. processRequest exampleEnv (getRead ''/admin'') cs =
              (Some (errorHandler exampleEnv CODE_403 ''forbidden'' (Some [(''Connection'', ''close'')])), cs,
               GetRoute ''GET'' ''/admin'' # effs
                 @ [HandleError CODE_403 ''forbidden'' (Some [(''Connection'', ''close'')])]))
           \<and> (\<forall>rds. Task_loop exampleEnv (getRead ''/admin'' # rds) CONNECTION_STATE_KEEP_ALIVE =
               (case Task_loop exampleEnv rds CONNECTION_STATE_KEEP_ALIVE of
                  None \<Rightarrow> None
                | Some rest \<Rightarrow>
                    Some ((GetRoute ''GET'' ''/admin'' # effs
                            @ [HandleError CODE_403 ''forbidden'' (Some [(''Connection'', ''close'')])])
                          @ Send (errorHandler exampleEnv CODE_403 ''forbidden''
                                    (Some [(''Connection'', ''close'')])) # rest)))"
    by (rule processRequest_failure_keeps_state
          [where rd = "getRead ''/admin''" and e = exampleEnv and m = "''GET''"
             and p = "''/admin''" and rt = adminRoute and req = "exampleRequest ''/admin''"
             and x = "HttpError CODE_403 ''forbidden'' [(''Connection'', ''close'')]"])
       (simp_all add: example_defs adminRoute_def)
  then obtain effs where
    pr: "\<forall>cs. processRequest exampleEnv (getRead ''/admin'') cs =
           (Some forbiddenResponse, cs,
            GetRoute ''GET'' ''/admin'' # effs
              @ [HandleError CODE_403 ''forbidden'' (Some [(''Connection'', ''close'')])])"
    and lp: "\<forall>rds. Task_loop exampleEnv (getRead ''/admin'' # rds) CONNECTION_STATE_KEEP_ALIVE =
               (case Task_loop exampleEnv rds CONNECTION_STATE_KEEP_ALIVE of
                  None \<Rightarrow> None
                | Some rest \<Rightarrow>
                    Some ((GetRoute ''GET'' ''/admin'' # effs
                            @ [HandleError CODE_403 ''forbidden'' (Some [(''Connection'', ''close'')])])
                          @ Send forbiddenResponse # rest))"
    unfolding eh by blast
  from lp [rule_format, of "[closedRead]"] nxt
  have l: "Task_loop exampleEnv [getRead ''/admin'', closedRead] CONNECTION_STATE_KEEP_ALIVE =
         Some ((GetRoute ''GET'' ''/admin'' # effs
                  @ [HandleError CODE_403 ''forbidden'' (Some [(''Connection'', ''close'')])])
               @ [Send forbiddenResponse])"
    by simp
  from pr [rule_format, of CONNECTION_STATE_KEEP_ALIVE] l show ?thesis by blast
qed

section \<open>Where the strategies agree\<close>

text \<open>The cooperative walk makes the calls of the blocking one and ends the same way.\<close>

lemma interceptWalk_frame:
  "m_currentRoute (fst (interceptWalk fs n req c)) = m_currentRoute c
   \<and> m_currentRequest (fst (interceptWalk fs n req c)) = m_currentRequest c
   \<and> m_connectionState (fst (interceptWalk fs n req c)) = m_connectionState c"
  by (induction fs arbitrary: n c) (auto split: sum.splits option.splits)

lemma interceptWalk_interceptLoop:
  "snd (interceptWalk fs n req c) =
     (case fst (interceptLoop fs n req) of
        Inl x \<Rightarrow> Inl x
      | Inr None \<Rightarrow> Inr False
      | Inr (Some r) \<Rightarrow> Inr True)
   \<and> effects (fst (interceptWalk fs n req c)) = effects c @ snd (interceptLoop fs n req)
   \<and> (case fst (interceptLoop fs n req) of
        Inr (Some r) \<Rightarrow> m_currentResponse (fst (interceptWalk fs n req c)) = Some r
      | _ \<Rightarrow> True)"
proof (induction fs arbitrary: n c)
  case Nil
  show ?case by simp
next
  case (Cons f fs)
  show ?case
  proof (cases "f req")
    case (Inl x)
    then show ?thesis by simp
  next
    case (Inr o1)
    show ?thesis
    proof (cases o1)
      case None
      with Inr Cons.IH [of "Suc n" "c\<lparr>m_currentResponse := None, effects := effects c @ [Intercept n req]\<rparr>"]
      show ?thesis by (auto simp add: case_prod_beta split: sum.splits option.splits)
    next
      case (Some r)
      with Inr show ?thesis by simp
    qed
  qed
qed

text \<open>
  Where the header read succeeds, a route matches and neither an interceptor nor the
  endpoint fails, the strategies agree: started at the header read from any coroutine
  state, the cooperative strategy hands to the send the response that the blocking one
  returns, and computes the same connection state. The endpoint's asynchronous call
  completes with the response its blocking call returns.
\<close>

lemma strategies_agree_on_answer:
  assumes ok: "code (info_status (read_error rd)) = 0" "0 < ioStatus (read_error rd)"
    and m: "m = line_method (startingLine (read_result rd))"
    and p: "p = line_path (startingLine (read_result rd))"
    and rt: "getRoute e m p = Some rt"
    and req: "req = createShared (startingLine (read_result rd)) (matchMap rt)
                      (result_headers (read_result rd))"
    and tb: "tryBlock e rt req = (Inr r, effs)"
    and r': "r' = putHeaderIfNotExists Header_SERVER Header_Value_SERVER r"
  shows "processRequest e rd cs =
           (Some r', considerConnectionState e (Some req) r', GetRoute m p # effs)
         \<and> (\<exists>evs c'. (evs = [] \<or> evs = [HandlerDone r])
               \<and> run e (c, WaitReadHeaders) (HeadersRead (read_result rd) # evs) = (c', WaitSend r')
               \<and> m_currentResponse c' = Some r'
               \<and> m_connectionState c' = considerConnectionState e (Some req) r')"
proof
  show "processRequest e rd cs =
           (Some r', considerConnectionState e (Some req) r', GetRoute m p # effs)"
    by (rule processRequest_answered [OF ok m p rt req tb r'])
next
  let ?c2 = "c\<lparr>m_currentRoute := Some rt, effects := effects c @ [GetRoute m p],
                m_currentRequest := Some req\<rparr>"
  let ?w = "interceptWalk (requestInterceptors e) 0 req ?c2"
  note rel = interceptWalk_interceptLoop [of "requestInterceptors e" 0 req ?c2]
  note frame = interceptWalk_frame [of "requestInterceptors e" 0 req ?c2]
  have ohp: "onHeadersParsed e (read_result rd) c =
               (case ?w of
                  (c3, Inl x) \<Rightarrow> (c3, Thrown x)
                | (c3, Inr True) \<Rightarrow> onResponseFormed e c3
                | (c3, Inr False) \<Rightarrow> onRequestFormed c3)"
    using rt unfolding onHeadersParsed_def m p req by (simp add: Let_def)
  show "\<exists>evs c'. (evs = [] \<or> evs = [HandlerDone r])
               \<and> run e (c, WaitReadHeaders) (HeadersRead (read_result rd) # evs) = (c', WaitSend r')
               \<and> m_currentResponse c' = Some r'
               \<and> m_connectionState c' = considerConnectionState e (Some req) r'"
  proof (cases "fst (interceptLoop (requestInterceptors e) 0 req)")
    case (Inl x)
    with tb show ?thesis by (simp add: tryBlock_def split: prod.splits)
  next
    case (Inr o1)
    show ?thesis
    proof (cases o1)
      case (Some a)
      with Inr tb have ar: "a = r" by (simp add: tryBlock_def split: prod.splits)
      from rel Inr Some ar have w: "snd ?w = Inr True" "m_currentResponse (fst ?w) = Some r"
        by simp_all
      from frame have fr: "m_currentRequest (fst ?w) = Some req" by simp
      have "onHeadersParsed e (read_result rd) c = onResponseFormed e (fst ?w)"
        using w(1) unfolding ohp by (simp add: case_prod_beta)
      then have "run e (c, WaitReadHeaders) [HeadersRead (read_result rd)] =
                   onResponseFormed e (fst ?w)"
        by (simp add: run_def)
      with w(2) fr show ?thesis
        unfolding r' by (intro exI [of _ "[]"]) (simp add: onResponseFormed_def Let_def)
    next
      case None
      with Inr tb have h: "handle rt req = Inr r"
        by (simp add: tryBlock_def split: prod.splits sum.splits)
      from rel Inr None have w: "snd ?w = Inr False" by simp
      from frame have fr: "m_currentRequest (fst ?w) = Some req" "m_currentRoute (fst ?w) = Some rt"
        by simp_all
      have "onHeadersParsed e (read_result rd) c = onRequestFormed (fst ?w)"
        using w unfolding ohp by (simp add: case_prod_beta)
      then have "run e (c, WaitReadHeaders) [HeadersRead (read_result rd), HandlerDone r] =
                   onResponse e r ((fst ?w)\<lparr>effects := effects (fst ?w) @ [HandleAsync req]\<rparr>)"
        using fr by (simp add: run_def onRequestFormed_def)
      with fr show ?thesis
        unfolding r'
        by (intro exI [of _ "[HandlerDone r]"])
           (simp add: onResponse_def onResponseFormed_def Let_def)
    qed
  qed
qed

section \<open>The server header\<close>

text \<open>
  On a response whose header keys are unique, the stamping leaves the server header
  exactly once: with the value already set, or else with the default.
\<close>

lemma filter_key_absent:
  "map_of hs k = None \<Longrightarrow> filter (\<lambda>kv. fst kv = k) hs = []"
  by (induction hs) (auto split: if_splits)

lemma filter_key_present:
  "distinct (map fst hs) \<Longrightarrow> map_of hs k = Some v \<Longrightarrow> filter (\<lambda>kv. fst kv = k) hs = [(k, v)]"
proof (induction hs)
  case Nil
  then show ?case by simp
next
  case (Cons a hs)
  show ?case
  proof (cases "fst a = k")
    case True
    with Cons.prems have "k \<notin> fst ` set hs" by auto
    then have "map_of hs k = None" by (simp add: map_of_eq_None_iff)
    then have "filter (\<lambda>kv. fst kv = k) hs = []" by (rule filter_key_absent)
    with True Cons.prems show ?thesis by (cases a) auto
  next
    case False
    with Cons show ?thesis by (cases a) auto
  qed
qed

lemma putHeaderIfNotExists_once:
  assumes "distinct (map fst (response_headers r))"
  shows "filter (\<lambda>kv. fst kv = k) (response_headers (putHeaderIfNotExists k v r)) =
           [(k, case map_of (response_headers r) k of None \<Rightarrow> v | Some old \<Rightarrow> old)]"
proof (cases "map_of (response_headers r) k")
  case None
  then show ?thesis
    by (simp add: putHeaderIfNotExists_def filter_key_absent)
next
  case (Some old)
  then show ?thesis
    using filter_key_present [OF assms Some] by (simp add: putHeaderIfNotExists_def)
qed

section \<open>Where the two strategies and the specification part\<close>

text \<open>
  Claim C3, evaluated on the code. The endpoint of \<^verbatim>\<open>GET /admin\<close> throws the structured
  error 403 ``forbidden'' with a \<^verbatim>\<open>Connection: close\<close> header. Entered with the state
  KEEP_ALIVE of an earlier iteration, \<^verbatim>\<open>processRequest\<close> returns the error handler's
  response with status 403, message ``forbidden'' and the headers as thrown, but the
  state it returns is the KEEP_ALIVE it was entered with, while the state computed from
  the request and that response is CLOSE.
\<close>

theorem structured_error_state_left_over:
  "processRequest exampleEnv (getRead ''/admin'') CONNECTION_STATE_KEEP_ALIVE =
     (Some forbiddenResponse, CONNECTION_STATE_KEEP_ALIVE,
      [GetRoute ''GET'' ''/admin'', Intercept 0 (exampleRequest ''/admin''),
       Intercept 1 (exampleRequest ''/admin''), Handle (exampleRequest ''/admin''),
       HandleError CODE_403 ''forbidden'' (Some [(''Connection'', ''close'')])])
   \<and> considerConnectionState exampleEnv (Some (exampleRequest ''/admin''))
         (putHeaderIfNotExists Header_SERVER Header_Value_SERVER forbiddenResponse) =
       CONNECTION_STATE_CLOSE"
  by (simp add: eval_defs)

text \<open>
  Claim C4, evaluated on the code. The endpoint of \<^verbatim>\<open>GET /crash\<close> throws a plain
  exception. \<^verbatim>\<open>processRequest\<close> returns the error handler's response as it is: it
  carries no server-identification header.
\<close>

theorem exception_response_not_stamped:
  "processRequest exampleEnv (getRead ''/crash'') CONNECTION_STATE_CLOSE =
     (Some crashResponse, CONNECTION_STATE_CLOSE,
      [GetRoute ''GET'' ''/crash'', Intercept 0 (exampleRequest ''/crash''),
       Intercept 1 (exampleRequest ''/crash''), Handle (exampleRequest ''/crash''),
       HandleError CODE_500 ''boom'' None])
   \<and> map_of (response_headers crashResponse) Header_SERVER = None"
  by (simp add: eval_defs)

text \<open>
  Claim C1, evaluated on the code. For the first request of a connection, with no
  matching route, the blocking strategy returns the error handler's 404 response as it
  is, while the cooperative strategy sends it with the server header appended: the two
  responses differ.
\<close>

theorem strategies_differ_without_route:
  "processRequest exampleEnv (getRead ''/nowhere'') CONNECTION_STATE_CLOSE =
     (Some notFoundResponse, CONNECTION_STATE_CLOSE,
      [GetRoute ''GET'' ''/nowhere'', HandleError CODE_404 ''Current url has no mapping'' None])
   \<and> snd (onHeadersParsed exampleEnv (getHeaders ''/nowhere'') newCoroutine) =
       WaitSend (withServerHeader notFoundResponse)
   \<and> notFoundResponse \<noteq> withServerHeader notFoundResponse"
  by (simp add: eval_defs coroutine_defs)

text \<open>
  Claim C2, evaluated on the code. In the cooperative strategy, after \<^verbatim>\<open>GET /hello\<close> was
  served on an HTTP/1.1 connection, a request with no matching route gets the 404
  response, but the connection state is computed from the request of the previous cycle
  and the response, and is KEEP_ALIVE: after the send the coroutine reads the next
  headers.
\<close>

theorem cooperative_no_route_keeps_alive:
  "snd (run exampleEnv (act newCoroutine)
         [ContextsReady, HeadersRead (getHeaders ''/hello''), HandlerDone helloResponse,
          ResponseSent, HeadersRead (getHeaders ''/nowhere'')]) =
     WaitSend (withServerHeader notFoundResponse)
   \<and> m_connectionState (fst (run exampleEnv (act newCoroutine)
         [ContextsReady, HeadersRead (getHeaders ''/hello''), HandlerDone helloResponse,
          ResponseSent, HeadersRead (getHeaders ''/nowhere'')])) =
     CONNECTION_STATE_KEEP_ALIVE
   \<and> snd (run exampleEnv (act newCoroutine)
         [ContextsReady, HeadersRead (getHeaders ''/hello''), HandlerDone helloResponse,
          ResponseSent, HeadersRead (getHeaders ''/nowhere''), ResponseSent]) =
     WaitReadHeaders"
  by (simp add: eval_defs coroutine_defs)

text \<open>
  Claim C9, evaluated on the code. A failure of the header read reaches
  \<^verbatim>\<open>handleError\<close>. On a fresh connection it is answered with a 500 response. After one
  request was served and the coroutine is back at the header read, \<^verbatim>\<open>m_currentResponse\<close>
  still holds the response of that request, and the same failure is logged and ends the
  coroutine without a response.
\<close>

theorem stale_response_changes_error_handling:
  "snd (run exampleEnv (act newCoroutine) [ContextsReady, Failed (Error ''read failed'')]) =
     WaitSend (withServerHeader (plainErrorHandler CODE_500 ''read failed'' None))
   \<and> m_currentResponse (fst (run exampleEnv (act newCoroutine)
         [ContextsReady, HeadersRead (getHeaders ''/hello''), HandlerDone helloResponse,
          ResponseSent])) = Some (withServerHeader helloResponse)
   \<and> snd (run exampleEnv (act newCoroutine)
         [ContextsReady, HeadersRead (getHeaders ''/hello''), HandlerDone helloResponse,
          ResponseSent]) = WaitReadHeaders
   \<and> snd (run exampleEnv (act newCoroutine)
         [ContextsReady, HeadersRead (getHeaders ''/hello''), HandlerDone helloResponse,
          ResponseSent, Failed (Error ''read failed'')]) =
     ErrorAction (Some (Error ''read failed''))"
  by (simp add: eval_defs coroutine_defs)

text \<open>
  Claim C8, evaluated on the code. After \<^verbatim>\<open>GET /hello\<close> was served on a keep-alive
  connection the coroutine waits for the next headers; every call in its log belongs to
  the request served, so the new cycle has formed no response. The header read then
  fails with an I/O error that is not a broken pipe. \<^verbatim>\<open>handleError\<close> finds the served
  request's response in \<^verbatim>\<open>m_currentResponse\<close>, logs the failure and returns it as the
  terminal action: the error handler is not called and no 500 response is formed.
\<close>

theorem failure_in_new_cycle_not_answered:
  "\<not> isBrokenPipe (AsyncIOError OTHER_IO_ERROR ''connection reset'')
   \<and> run exampleEnv (act newCoroutine)
         [ContextsReady, HeadersRead (getHeaders ''/hello''), HandlerDone helloResponse,
          ResponseSent] =
       (newCoroutine\<lparr>m_currentRoute := Some helloRoute,
          m_currentRequest := Some (exampleRequest ''/hello''),
          m_currentResponse := Some (withServerHeader helloResponse),
          m_connectionState := CONNECTION_STATE_KEEP_ALIVE,
          effects := [InitContexts, GetRoute ''GET'' ''/hello'',
                      Intercept 0 (exampleRequest ''/hello''),
                      Intercept 1 (exampleRequest ''/hello''),
                      HandleAsync (exampleRequest ''/hello''),
                      SendAsync (withServerHeader helloResponse)]\<rparr>,
        WaitReadHeaders)
   \<and> resume exampleEnv
         (run exampleEnv (act newCoroutine)
            [ContextsReady, HeadersRead (getHeaders ''/hello''), HandlerDone helloResponse,
             ResponseSent])
         (Failed (AsyncIOError OTHER_IO_ERROR ''connection reset'')) =
       (newCoroutine\<lparr>m_currentRoute := Some helloRoute,
          m_currentRequest := Some (exampleRequest ''/hello''),
          m_currentResponse := Some (withServerHeader helloResponse),
          m_connectionState := CONNECTION_STATE_KEEP_ALIVE,
          effects := [InitContexts, GetRoute ''GET'' ''/hello'',
                      Intercept 0 (exampleRequest ''/hello''),
                      Intercept 1 (exampleRequest ''/hello''),
                      HandleAsync (exampleRequest ''/hello''),
                      SendAsync (withServerHeader helloResponse),
                      LogE (''Unhandled error. '' @ [CHR 0x27] @ ''connection reset''
                            @ [CHR 0x27] @ ''. Dropping connection'')]\<rparr>,
        ErrorAction (Some (AsyncIOError OTHER_IO_ERROR ''connection reset'')))"
  by (simp add: eval_defs coroutine_defs)

end
